theory Spec2Isabelle
  imports Complex_Main "HOL-Library.Word"
begin

section \<open>Images\<close>

text \<open>
  The program receives a decoded Pillow image. Only what \<open>preprocess_image\<close> reads is kept:
  the mode string, the size (width, height) and the 8-bit samples of each band. A band maps
  a row \<open>y\<close> and a column \<open>x\<close> to a sample.
\<close>

type_synonym band = "nat \<Rightarrow> nat \<Rightarrow> 8 word"

record image =
  mode :: string
  size_image :: "nat \<times> nat"
  bands :: "band list"

text \<open>
  Pillow is not part of the repository. Its two pixel transforms are parameters of the model:
  \<open>to_luma\<close> gives the samples of \<open>image.convert('L')\<close>, and \<open>resample\<close> gives the samples
  of one band after \<open>image.resize\<close> from a source size to a target size. Both are total
  on a decoded image.
\<close>

record pil =
  to_luma :: "image \<Rightarrow> band"
  resample :: "nat \<times> nat \<Rightarrow> nat \<times> nat \<Rightarrow> band \<Rightarrow> band"

definition convert_L :: "pil \<Rightarrow> image \<Rightarrow> image" where
  "convert_L lib im = \<lparr>mode = ''L'', size_image = size_image im, bands = [to_luma lib im]\<rparr>"

definition Image_merge :: "string \<Rightarrow> image \<times> image \<times> image \<Rightarrow> image" where
  "Image_merge m ims =
     (case ims of (a, b, c) \<Rightarrow>
        \<lparr>mode = m, size_image = size_image a, bands = bands a @ bands b @ bands c\<rparr>)"

definition resize :: "pil \<Rightarrow> image \<Rightarrow> nat \<times> nat \<Rightarrow> image" where
  "resize lib im target =
     \<lparr>mode = mode im, size_image = target,
      bands = map (resample lib (size_image im) target) (bands im)\<rparr>"

section \<open>Arrays\<close>

text \<open>
  A NumPy array is its shape, its element type and its elements. Elements are read through
  \<open>item\<close> at a full index; outside the shape \<open>item\<close> is 0. Element values are real
  numbers: the rounding of binary floating point is not part of the model.
\<close>

datatype dtype = UInt8 | Float32 | Float64

record ndarray =
  shape :: "nat list"
  dtype :: dtype
  item :: "nat list \<Rightarrow> real"

text \<open>
  \<open>np.array(image)\<close>: a single-band image gives a two-dimensional array (height, width),
  a multi-band image a three-dimensional one (height, width, bands); the elements are the
  unsigned 8-bit samples.
\<close>

definition np_array :: "image \<Rightarrow> ndarray" where
  "np_array im =
     (case size_image im of (w, h) \<Rightarrow>
        (case bands im of
           [b] \<Rightarrow>
             \<lparr>shape = [h, w], dtype = UInt8,
              item = (\<lambda>idx. case idx of
                        [y, x] \<Rightarrow> if y < h \<and> x < w then real (unat (b y x)) else 0
                      | _ \<Rightarrow> 0)\<rparr>
         | bs \<Rightarrow>
             \<lparr>shape = [h, w, length bs], dtype = UInt8,
              item = (\<lambda>idx. case idx of
                        [y, x, c] \<Rightarrow>
                          if y < h \<and> x < w \<and> c < length bs
                          then real (unat ((bs ! c) y x)) else 0
                      | _ \<Rightarrow> 0)\<rparr>))"

definition expand_dims :: "ndarray \<Rightarrow> nat \<Rightarrow> ndarray" where
  "expand_dims a axis =
     \<lparr>shape = take axis (shape a) @ [1] @ drop axis (shape a),
      dtype = dtype a,
      item = (\<lambda>idx. if axis < length idx \<and> idx ! axis = 0
                     then item a (take axis idx @ drop (Suc axis) idx) else 0)\<rparr>"

text \<open>
  \<open>array / 255.0\<close>: NumPy's true division of an integer array by a Python float gives
  a 64-bit float array of the same shape.
\<close>

definition true_divide :: "ndarray \<Rightarrow> real \<Rightarrow> ndarray" where
  "true_divide a c = \<lparr>shape = shape a, dtype = Float64, item = (\<lambda>idx. item a idx / c)\<rparr>"

definition astype :: "ndarray \<Rightarrow> dtype \<Rightarrow> ndarray" where
  "astype a t = a\<lparr>dtype := t\<rparr>"

section \<open>The preprocessor\<close>

definition default_target_size :: "nat \<times> nat" where
  "default_target_size = (224, 224)"

definition preprocess_image :: "pil \<Rightarrow> image \<Rightarrow> nat \<times> nat \<Rightarrow> ndarray" where
  "preprocess_image lib image0 target_sz =
     (let image1 = (if mode image0 \<noteq> ''L''
                    then (let g = convert_L lib image0 in Image_merge ''RGB'' (g, g, g))
                    else image0);
          image2 = resize lib image1 target_sz;
          img_array = np_array image2;
          img_array = expand_dims img_array 0;
          img_array = true_divide img_array 255
      in img_array)"

section \<open>Exceptions and interface events\<close>

text \<open>
  A Python exception is kept as the text \<open>str(e)\<close> gives. A call that may raise returns
  \<open>exn + 'a\<close>, with \<open>Inl\<close> for the exception; \<open>and_then\<close> runs the next statement
  only when the previous one returned.
\<close>

datatype exn = Exception string

fun str :: "exn \<Rightarrow> string" where
  "str (Exception m) = m"

definition and_then :: "exn + 'a \<Rightarrow> ('a \<Rightarrow> exn + 'b) \<Rightarrow> exn + 'b" where
  "and_then r f = (case r of Inl e \<Rightarrow> Inl e | Inr x \<Rightarrow> f x)"

definition getitem :: "'a list \<Rightarrow> nat \<Rightarrow> exn + 'a" where
  "getitem xs i = (if i < length xs then Inr (xs ! i) else Inl (Exception ''index out of range''))"

text \<open>
  What one run of the script does to the page is a list of events, in program order.
  \<open>St_static\<close> stands for a widget or text block whose content is fixed, \<open>Result_card\<close>
  for the result block with its three interpolated fields (colour, label, confidence text).
  \<open>Called\<close> records that one of the program's own steps was entered.
\<close>

datatype event =
    St_static string
  | St_error string
  | St_write string
  | St_image image
  | St_spinner string
  | Result_card string string string
  | Called string

section \<open>The inference runtime\<close>

text \<open>
  The TFLite interpreter is an object with internal buffers. Its state has type \<open>'s\<close>;
  each method takes the state and may raise. The output tensor is read as a two-dimensional
  array of numbers, as \<open>prediction[0][0]\<close> does.
\<close>

record tensor_detail =
  index :: nat

record 's interpreter =
  istate :: 's
  allocate_tensors :: "'s \<Rightarrow> exn + 's"
  get_input_details :: "'s \<Rightarrow> exn + tensor_detail list"
  get_output_details :: "'s \<Rightarrow> exn + tensor_detail list"
  set_tensor :: "nat \<Rightarrow> ndarray \<Rightarrow> 's \<Rightarrow> exn + 's"
  invoke :: "'s \<Rightarrow> exn + 's"
  get_tensor :: "nat \<Rightarrow> 's \<Rightarrow> exn + real list list"

section \<open>The model loader\<close>

text \<open>
  \<open>new_Interpreter\<close> is the constructor \<open>Interpreter(model_path=...)\<close> of the runtime.
  \<open>load_try\<close> is the body of the \<open>try\<close> block; the handler turns any exception into an
  error event and the absent handle.
\<close>

definition load_try :: "(string \<Rightarrow> exn + 's interpreter) \<Rightarrow> exn + 's interpreter" where
  "load_try new_Interpreter =
     and_then (new_Interpreter ''pcos_detection_model.tflite'') (\<lambda>interpreter.
     and_then (allocate_tensors interpreter (istate interpreter)) (\<lambda>s.
       Inr (interpreter\<lparr>istate := s\<rparr>)))"

definition load_tflite_model ::
  "(string \<Rightarrow> exn + 's interpreter) \<Rightarrow> 's interpreter option \<times> event list" where
  "load_tflite_model new_Interpreter =
     (case load_try new_Interpreter of
        Inr interpreter \<Rightarrow> (Some interpreter, [])
      | Inl e \<Rightarrow> (None, [St_error (''Error loading TFLite model: '' @ str e)]))"

section \<open>The predictor\<close>

text \<open>
  \<open>predict_try\<close> is the body of the \<open>try\<close> block of \<open>predict_pcos_tflite\<close>, statement
  by statement. The buffers of the interpreter after the call are not returned: the program
  reads nothing from them afterwards.
\<close>

definition predict_try :: "'s interpreter \<Rightarrow> ndarray \<Rightarrow> exn + string \<times> real" where
  "predict_try interpreter image_array =
     and_then (get_input_details interpreter (istate interpreter)) (\<lambda>input_details.
     and_then (get_output_details interpreter (istate interpreter)) (\<lambda>output_details.
     and_then (getitem input_details 0) (\<lambda>d_in.
     and_then (set_tensor interpreter (index d_in) (astype image_array Float32)
                 (istate interpreter)) (\<lambda>s1.
     and_then (invoke interpreter s1) (\<lambda>s2.
     and_then (getitem output_details 0) (\<lambda>d_out.
     and_then (get_tensor interpreter (index d_out) s2) (\<lambda>prediction.
     and_then (getitem prediction 0) (\<lambda>row.
     and_then (getitem row 0) (\<lambda>probability.
       (let result = (if probability > 0.5 then ''PCOS Negative'' else ''PCOS Positive'')
        in Inr (result, probability)))))))))))"

definition predict_pcos_tflite ::
  "'s interpreter \<Rightarrow> ndarray \<Rightarrow> (string option \<times> real option) \<times> event list" where
  "predict_pcos_tflite interpreter image_array =
     (case predict_try interpreter image_array of
        Inr (result, probability) \<Rightarrow> ((Some result, Some probability), [])
      | Inl e \<Rightarrow> ((None, None), [St_error (''Error during prediction: '' @ str e)]))"

section \<open>Formatting\<close>

text \<open>
  The format specification \<open>.2%\<close>: the value times 100, rounded to two decimals
  (ties to even), followed by a percent sign.
\<close>

definition digit_char :: "nat \<Rightarrow> char" where
  "digit_char d = ''0123456789'' ! (d mod 10)"

fun str_nat :: "nat \<Rightarrow> string" where
  "str_nat n = (if n < 10 then [digit_char n] else str_nat (n div 10) @ [digit_char (n mod 10)])"

definition round_half_even :: "real \<Rightarrow> int" where
  "round_half_even y =
     (let f = \<lfloor>y\<rfloor>; d = y - of_int f
      in if d < 1 / 2 then f else if 1 / 2 < d then f + 1 else if even f then f else f + 1)"

definition format_percent2 :: "real \<Rightarrow> string" where
  "format_percent2 x =
     (let n = nat \<bar>round_half_even (x * 100 * 100)\<bar>
      in (if x < 0 then ''-'' else []) @ str_nat (n div 100) @ ''.''
         @ [digit_char (n div 10), digit_char n] @ ''%'')"

fun starts_with :: "string \<Rightarrow> string \<Rightarrow> bool" where
  "starts_with s [] = True"
| "starts_with [] (p # ps) = False"
| "starts_with (c # cs) (p # ps) = (c = p \<and> starts_with cs ps)"

fun contains :: "string \<Rightarrow> string \<Rightarrow> bool" where
  "contains [] sub = (sub = [])"
| "contains (c # cs) sub = (starts_with (c # cs) sub \<or> contains cs sub)"

definition truthy :: "string option \<Rightarrow> bool" where
  "truthy r = (case r of None \<Rightarrow> False | Some s \<Rightarrow> s \<noteq> [])"

section \<open>The page script\<close>

text \<open>
  One run of \<open>main\<close> is one interaction. Its inputs are the runtime's constructor, the
  image library, the uploaded file (if any) with its size in bytes and the outcome of
  \<open>Image.open\<close> on it, and whether the button was pressed. The memoisation of
  \<open>load_tflite_model\<close> across runs is not modelled: every run sees the same outcome.
\<close>

record upload =
  size_upload :: nat
  Image_open :: "exn + image"

record 's session =
  new_Interpreter :: "string \<Rightarrow> exn + 's interpreter"
  pillow :: pil
  uploaded_file :: "upload option"
  check_button :: bool

definition static_ui :: "event list" where
  "static_ui =
     [St_static ''sidebar.title'', St_static ''sidebar.write'',
      St_static ''sidebar.file_uploader'', St_static ''sidebar.button'',
      St_static ''sidebar.warning'', St_static ''sidebar.markdown'',
      St_static ''sidebar.info'', St_static ''markdown big-title'']"

text \<open>
  The block under \<open>if result:\<close>. The confidence text is
  \<open>abs(probability - 0.5) * 2\<close> under the format \<open>.2%\<close>; with an absent probability the
  subtraction raises.
\<close>

definition render_result :: "string option \<Rightarrow> real option \<Rightarrow> event list \<times> exn option" where
  "render_result result probability =
     (if truthy result then
        (case result of
           None \<Rightarrow> ([], None)
         | Some r \<Rightarrow>
             (let result_color = (if contains r ''Positive'' then ''red'' else ''green'')
              in case probability of
                   None \<Rightarrow> ([St_static ''columns''],
                             Some (Exception ''unsupported operand type(s) for -''))
                 | Some p \<Rightarrow>
                     ([St_static ''columns'',
                       Result_card result_color r (format_percent2 (\<bar>p - 0.5\<bar> * 2))], None)))
      else ([], None))"

text \<open>
  The body of the \<open>try\<close> block of \<open>main\<close>: the events it produced, and the exception
  that ended it, if any.
\<close>

definition main_try ::
  "'s interpreter \<Rightarrow> pil \<Rightarrow> upload \<Rightarrow> bool \<Rightarrow> event list \<times> exn option" where
  "main_try interpreter lib uploaded button =
     (case Image_open uploaded of
        Inl e \<Rightarrow> ([Called ''Image.open''], Some e)
      | Inr image0 \<Rightarrow>
          (let shown = [Called ''Image.open'', St_static ''columns'',
                        St_static ''markdown image-container'', St_image image0,
                        St_static ''markdown /div'']
           in if button then
                (let processed_image = preprocess_image lib image0 default_target_size;
                     (rp, predict_events) = predict_pcos_tflite interpreter processed_image;
                     (result_events, raised) = render_result (fst rp) (snd rp)
                 in (shown @ [St_spinner ''Analyzing image...'', Called ''preprocess_image'',
                              Called ''predict_pcos_tflite'']
                       @ predict_events @ result_events, raised))
              else (shown, None)))"

definition main :: "'s session \<Rightarrow> event list" where
  "main env =
     static_ui @ [Called ''load_tflite_model''] @
     (case load_tflite_model (new_Interpreter env) of
        (interpreter, load_events) \<Rightarrow>
          load_events @
          (case interpreter of
             None \<Rightarrow>
               [St_error ''Failed to load TFLite model. Please check if the model file exists.'']
           | Some interp \<Rightarrow>
               (case uploaded_file env of
                  Some uploaded \<Rightarrow>
                    if size_upload uploaded > 10 * 1024 * 1024
                    then [St_error ''File size exceeds 10MB limit. Please upload a smaller file.'']
                    else (case main_try interp (pillow env) uploaded (check_button env) of
                            (events, None) \<Rightarrow> events
                          | (events, Some e) \<Rightarrow>
                              events @ [St_error (''Error processing image: '' @ str e),
                                        St_write ''Please ensure you've uploaded a valid image file.''])
                | None \<Rightarrow> [St_static ''columns'', St_static ''markdown placeholder''])))"

section \<open>Sample inputs\<close>

text \<open>
  Concrete inputs on which the definitions above are run. \<open>sample_pil\<close> converts an RGB
  image with the ITU-R 601-2 luma weights Pillow uses and resamples by nearest neighbour;
  any other choice of the two transforms gives the same shapes and element types.
\<close>

definition luma601 :: "8 word \<Rightarrow> 8 word \<Rightarrow> 8 word \<Rightarrow> 8 word" where
  "luma601 r g b =
     of_nat ((unat r * 19595 + unat g * 38470 + unat b * 7471 + 32768) div 65536)"

definition sample_pil :: pil where
  "sample_pil =
     \<lparr>to_luma = (\<lambda>im. case bands im of
                      [r, g, b] \<Rightarrow> (\<lambda>y x. luma601 (r y x) (g y x) (b y x))
                    | b # _ \<Rightarrow> b
                    | [] \<Rightarrow> (\<lambda>y x. 0)),
      resample = (\<lambda>src dst b.
                    case src of (sw, sh) \<Rightarrow>
                      (case dst of (tw, th) \<Rightarrow> (\<lambda>y x. b (y * sh div th) (x * sw div tw))))\<rparr>"

definition gray_image :: image where
  "gray_image = \<lparr>mode = ''L'', size_image = (300, 300), bands = [\<lambda>y x. of_nat (x + y)]\<rparr>"

definition rgb_image :: image where
  "rgb_image =
     \<lparr>mode = ''RGB'', size_image = (300, 300),
      bands = [\<lambda>y x. of_nat x, \<lambda>y x. of_nat y, \<lambda>y x. 7]\<rparr>"

text \<open>
  A runtime whose model expects a float32 input of shape (1, 224, 224, 3) at buffer 0 and
  answers with a fixed output tensor at buffer 1. As TFLite does, it refuses a tensor of
  another shape or element type, and refuses to run before an input was bound.
\<close>

definition stub_interpreter :: "real list list \<Rightarrow> ndarray option interpreter" where
  "stub_interpreter out =
     \<lparr>istate = None,
      allocate_tensors = (\<lambda>s. Inr s),
      get_input_details = (\<lambda>s. Inr [\<lparr>index = 0\<rparr>]),
      get_output_details = (\<lambda>s. Inr [\<lparr>index = 1\<rparr>]),
      set_tensor = (\<lambda>i a s. if i = 0 \<and> shape a = [1, 224, 224, 3] \<and> dtype a = Float32
                              then Inr (Some a)
                              else Inl (Exception ''Cannot set tensor: Dimension mismatch'')),
      invoke = (\<lambda>s. case s of None \<Rightarrow> Inl (Exception ''Input tensor not set'')
                               | Some a \<Rightarrow> Inr s),
      get_tensor = (\<lambda>i s. if i = 1 then Inr out
                           else Inl (Exception ''Invalid tensor index''))\<rparr>"

definition broken_interpreter :: "ndarray option interpreter" where
  "broken_interpreter =
     (stub_interpreter [[1]])\<lparr>invoke := (\<lambda>s. Inl (Exception ''Node failed to invoke''))\<rparr>"

definition sample_session :: "image \<Rightarrow> nat \<Rightarrow> real \<Rightarrow> ndarray option session" where
  "sample_session im n p =
     \<lparr>new_Interpreter = (\<lambda>path. Inr (stub_interpreter [[p]])),
      pillow = sample_pil,
      uploaded_file = Some \<lparr>size_upload = n, Image_open = Inr im\<rparr>,
      check_button = True\<rparr>"

definition no_model_session :: "ndarray option session" where
  "no_model_session =
     (sample_session rgb_image 1000 1)
       \<lparr>new_Interpreter := (\<lambda>path. Inl (Exception ''Could not open the model file''))\<rparr>"

definition broken_session :: "ndarray option session" where
  "broken_session =
     (sample_session rgb_image 1000 1)\<lparr>new_Interpreter := (\<lambda>path. Inr broken_interpreter)\<rparr>"

section \<open>Properties of the preprocessor\<close>

lemma sample_range: "0 \<le> (unsigned (v :: 8 word) :: real) \<and> (unsigned v :: real) \<le> 255"
proof -
  have "unat v < 2 ^ LENGTH(8)" by (rule unsigned_less)
  then have "unat v \<le> 255" by simp
  then have a: "real (unat v) \<le> 255" by linarith
  have b: "0 \<le> real (unat v)" by (rule of_nat_0_le_iff)
  from a b show ?thesis by simp
qed

lemma np_array_item_range: "0 \<le> item (np_array im) idx \<and> item (np_array im) idx \<le> 255"
proof -
  obtain w' h' where s: "size_image im = (w', h')" by (cases "size_image im")
  show ?thesis
    using sample_range
    by (auto simp: np_array_def s split: list.splits)
qed

text \<open>Every element of the result lies in [0, 1], whatever the mode and size of the input.\<close>

lemma preprocess_image_item_range:
  "0 \<le> item (preprocess_image lib im t) idx \<and> item (preprocess_image lib im t) idx \<le> 1"
  using np_array_item_range
  by (simp add: preprocess_image_def Let_def true_divide_def expand_dims_def)

text \<open>An image whose mode is not \<open>L\<close> gives the four-dimensional shape.\<close>

lemma preprocess_image_shape_not_L:
  "mode im \<noteq> ''L'' \<Longrightarrow> shape (preprocess_image lib im (w, h)) = [1, h, w, 3]"
  by (simp add: preprocess_image_def Let_def true_divide_def expand_dims_def np_array_def
      resize_def Image_merge_def convert_L_def)

text \<open>
  An image already in mode \<open>L\<close> skips the replication of its band, so the result has
  three dimensions only.
\<close>

lemma preprocess_image_shape_L:
  "mode im = ''L'' \<Longrightarrow> bands im = [b] \<Longrightarrow> shape (preprocess_image lib im (w, h)) = [1, h, w]"
  by (simp add: preprocess_image_def Let_def true_divide_def expand_dims_def np_array_def
      resize_def)


text \<open>
  The luma of a pixel with three equal samples is that sample, so on a grayscale image and
  on the RGB image built from its band the elements agree channel by channel: the two
  results differ in the channel axis only.
\<close>

lemma luma601_gray: "luma601 v v v = v"
proof -
  have "unat v * 19595 + unat v * 38470 + unat v * 7471 + 32768 = 32768 + unat v * 65536"
    by simp
  then have "(unat v * 19595 + unat v * 38470 + unat v * 7471 + 32768) div 65536 = unat v"
    by simp
  then show ?thesis by (simp add: luma601_def)
qed

lemma preprocess_image_gray_items:
  assumes "c < 3"
  shows "item (preprocess_image sample_pil gray_image default_target_size) [0, y, x] =
         item (preprocess_image sample_pil (Image_merge ''RGB'' (gray_image, gray_image, gray_image))
                 default_target_size) [0, y, x, c]"
proof -
  have c: "c = 0 \<or> c = 1 \<or> c = 2" using assms by auto
  show ?thesis
    using c
    by (auto simp: preprocess_image_def Let_def true_divide_def expand_dims_def np_array_def
      resize_def Image_merge_def convert_L_def gray_image_def default_target_size_def
      sample_pil_def luma601_gray)
qed

text \<open>
  Claim C1. The claim asks for the shape (1, 224, 224, 3) on every input, grayscale inputs
  included. On the 300 x 300 image of mode \<open>L\<close> the program returns a tensor of shape
  (1, 224, 224): the channel axis is missing.
\<close>

theorem preprocess_image_gray_shape:
  "shape (preprocess_image sample_pil gray_image default_target_size) = [1, 224, 224]"
  by (simp add: preprocess_image_shape_L gray_image_def default_target_size_def)

text \<open>
  Claim C4. The claim asks that a grayscale image and the RGB image with the same
  luminance in its three channels give the same tensor. On the 300 x 300 image of mode
  \<open>L\<close> the two tensors differ already in their shapes.
\<close>

theorem preprocess_image_gray_differs_from_rgb:
  "shape (preprocess_image sample_pil gray_image default_target_size) = [1, 224, 224] \<and>
   shape (preprocess_image sample_pil (Image_merge ''RGB'' (gray_image, gray_image, gray_image))
            default_target_size) = [1, 224, 224, 3] \<and>
   preprocess_image sample_pil gray_image default_target_size \<noteq>
   preprocess_image sample_pil (Image_merge ''RGB'' (gray_image, gray_image, gray_image))
     default_target_size"
proof -
  have g: "shape (preprocess_image sample_pil gray_image default_target_size) = [1, 224, 224]"
    by (simp add: preprocess_image_shape_L gray_image_def default_target_size_def)
  have r: "shape (preprocess_image sample_pil
                    (Image_merge ''RGB'' (gray_image, gray_image, gray_image))
                    default_target_size) = [1, 224, 224, 3]"
    by (simp add: preprocess_image_shape_not_L Image_merge_def default_target_size_def)
  from g r show ?thesis by auto
qed




section \<open>Properties of the predictor\<close>

text \<open>
  Claim C2. When the runtime calls return and the output tensor holds \<open>p\<close> at
  \<open>[0][0]\<close>, the label is \<open>PCOS Negative\<close> if \<open>p\<close> is strictly greater than 0.5 and
  \<open>PCOS Positive\<close> otherwise, so at exactly 0.5 it is \<open>PCOS Positive\<close>; the probability
  returned is \<open>p\<close>.
\<close>

theorem decision_rule:
  assumes "get_input_details i (istate i) = Inr (d_in # ds_in)"
    and "get_output_details i (istate i) = Inr (d_out # ds_out)"
    and "set_tensor i (index d_in) (astype a Float32) (istate i) = Inr s1"
    and "invoke i s1 = Inr s2"
    and "get_tensor i (index d_out) s2 = Inr ((p # row) # rows)"
  shows "predict_pcos_tflite i a =
           ((Some (if 0.5 < p then ''PCOS Negative'' else ''PCOS Positive''), Some p), [])"
  using assms
  by (simp add: predict_pcos_tflite_def predict_try_def and_then_def getitem_def)

theorem decision_rule_witness:
  "predict_pcos_tflite (stub_interpreter [[0.5]])
     (preprocess_image sample_pil rgb_image default_target_size)
   = ((Some ''PCOS Positive'', Some 0.5), []) \<and>
   predict_pcos_tflite (stub_interpreter [[0.5000001]])
     (preprocess_image sample_pil rgb_image default_target_size)
   = ((Some ''PCOS Negative'', Some 0.5000001), [])"
proof -
  let ?a = "preprocess_image sample_pil rgb_image default_target_size"
  have sh: "shape ?a = [1, 224, 224, 3]"
    by (simp add: preprocess_image_shape_not_L rgb_image_def default_target_size_def)
  have dt: "dtype (astype ?a Float32) = Float32" by (simp add: astype_def)
  have sh': "shape (astype ?a Float32) = [1, 224, 224, 3]" using sh by (simp add: astype_def)
  have 1: "predict_pcos_tflite (stub_interpreter [[0.5]]) ?a
   = ((Some ''PCOS Positive'', Some 0.5), [])"
    using decision_rule [of "stub_interpreter [[0.5]]" "\<lparr>index = 0\<rparr>" "[]" "\<lparr>index = 1\<rparr>" "[]"
        ?a "Some (astype ?a Float32)" "Some (astype ?a Float32)" "0.5" "[]" "[]"] sh' dt
    by (simp add: stub_interpreter_def)
  have 2: "predict_pcos_tflite (stub_interpreter [[0.5000001]]) ?a
   = ((Some ''PCOS Negative'', Some 0.5000001), [])"
    using decision_rule [of "stub_interpreter [[0.5000001]]" "\<lparr>index = 0\<rparr>" "[]" "\<lparr>index = 1\<rparr>" "[]"
        ?a "Some (astype ?a Float32)" "Some (astype ?a Float32)" "0.5000001" "[]" "[]"] sh' dt
    by (simp add: stub_interpreter_def)
  from 1 2 show ?thesis by simp
qed

text \<open>
  Claim C10. When the \<open>try\<close> block returns, the label is one of the two fixed strings and
  both components are present; when it raises, both components are \<open>None\<close>. So the label
  is \<open>None\<close> exactly when the probability is.
\<close>

theorem predict_result_consistent:
  "(case predict_try i a of
      Inr (r, p) \<Rightarrow> fst (predict_pcos_tflite i a) = (Some r, Some p) \<and>
                    (r = ''PCOS Negative'' \<or> r = ''PCOS Positive'')
    | Inl e \<Rightarrow> fst (predict_pcos_tflite i a) = (None, None)) \<and>
   ((fst (fst (predict_pcos_tflite i a)) = None) = (snd (fst (predict_pcos_tflite i a)) = None))"
  by (auto simp: predict_pcos_tflite_def predict_try_def and_then_def Let_def split: sum.splits)

section \<open>Properties of the page script\<close>

lemma static_ui_no_call: "Called f \<notin> set static_ui"
  by (simp add: static_ui_def)

lemma static_ui_no_card: "Result_card c r t \<notin> set static_ui"
  by (simp add: static_ui_def)

lemma load_tflite_model_ok:
  "load_try new = Inr interp \<Longrightarrow> load_tflite_model new = (Some interp, [])"
  by (simp add: load_tflite_model_def)

lemma load_tflite_model_fails:
  "load_try new = Inl e \<Longrightarrow>
   load_tflite_model new = (None, [St_error (''Error loading TFLite model: '' @ str e)])"
  by (simp add: load_tflite_model_def)

lemma main_no_model:
  assumes "load_try (new_Interpreter env) = Inl e"
  shows "main env = static_ui @
           [Called ''load_tflite_model'',
            St_error (''Error loading TFLite model: '' @ str e),
            St_error ''Failed to load TFLite model. Please check if the model file exists.'']"
  using assms by (simp add: main_def load_tflite_model_def)


lemma main_accepted:
  assumes "load_try (new_Interpreter env) = Inr interp"
    and "uploaded_file env = Some up"
    and "size_upload up \<le> 10485760"
  shows "main env = static_ui @ [Called ''load_tflite_model''] @
           (case main_try interp (pillow env) up (check_button env) of
              (events, None) \<Rightarrow> events
            | (events, Some e) \<Rightarrow>
                events @ [St_error (''Error processing image: '' @ str e),
                          St_write ''Please ensure you've uploaded a valid image file.''])"
  using assms by (simp add: main_def load_tflite_model_def split: prod.splits option.splits)

lemma render_result_label:
  assumes "r = ''PCOS Negative'' \<or> r = ''PCOS Positive''"
  shows "render_result (Some r) (Some p) =
           ([St_static ''columns'',
             Result_card (if r = ''PCOS Positive'' then ''red'' else ''green'') r
               (format_percent2 (\<bar>p - 0.5\<bar> * 2))], None)"
  using assms by (auto simp: render_result_def truthy_def)

lemma predict_try_label:
  "predict_try i a = Inr (r, p) \<Longrightarrow>
   r = (if 0.5 < p then ''PCOS Negative'' else ''PCOS Positive'')"
  by (auto simp: predict_try_def and_then_def Let_def split: sum.splits if_splits)

lemma main_try_success:
  assumes "Image_open up = Inr im"
    and "predict_try interp (preprocess_image lib im default_target_size) = Inr (r, p)"
  shows "main_try interp lib up True =
           ([Called ''Image.open'', St_static ''columns'',
             St_static ''markdown image-container'', St_image im, St_static ''markdown /div'',
             St_spinner ''Analyzing image...'', Called ''preprocess_image'',
             Called ''predict_pcos_tflite'', St_static ''columns'',
             Result_card (if 0.5 < p then ''green'' else ''red'')
               (if 0.5 < p then ''PCOS Negative'' else ''PCOS Positive'')
               (format_percent2 (\<bar>p - 0.5\<bar> * 2))], None)"
proof -
  have r: "r = (if 0.5 < p then ''PCOS Negative'' else ''PCOS Positive'')"
    using assms(2) by (rule predict_try_label)
  have pr: "predict_pcos_tflite interp (preprocess_image lib im default_target_size)
            = ((Some r, Some p), [])"
    using assms(2) by (simp add: predict_pcos_tflite_def)
  have rr: "render_result (Some r) (Some p) =
           ([St_static ''columns'',
             Result_card (if r = ''PCOS Positive'' then ''red'' else ''green'') r
               (format_percent2 (\<bar>p - 0.5\<bar> * 2))], None)"
    by (rule render_result_label) (simp add: r)
  show ?thesis
    using assms(1) pr rr r by (simp add: main_try_def Let_def)
qed

lemma main_try_predict_fails:
  assumes "Image_open up = Inr im"
    and "predict_try interp (preprocess_image lib im default_target_size) = Inl e"
  shows "main_try interp lib up True =
           ([Called ''Image.open'', St_static ''columns'',
             St_static ''markdown image-container'', St_image im, St_static ''markdown /div'',
             St_spinner ''Analyzing image...'', Called ''preprocess_image'',
             Called ''predict_pcos_tflite'',
             St_error (''Error during prediction: '' @ str e)], None)"
  using assms
  by (simp add: main_try_def Let_def predict_pcos_tflite_def render_result_def truthy_def)

text \<open>The sample runtime loads, and answers on a tensor of the shape it expects.\<close>

lemma sample_load: "load_try (new_Interpreter (sample_session im n p)) = Inr (stub_interpreter [[p]])"
  by (simp add: load_try_def sample_session_def and_then_def stub_interpreter_def)

lemma sample_predict_try:
  assumes "shape a = [1, 224, 224, 3]"
  shows "predict_try (stub_interpreter [[p]]) a =
         Inr (if 0.5 < p then ''PCOS Negative'' else ''PCOS Positive'', p)"
  using assms
  by (simp add: predict_try_def and_then_def getitem_def stub_interpreter_def astype_def)

lemma rgb_image_shape:
  "shape (preprocess_image lib rgb_image default_target_size) = [1, 224, 224, 3]"
  by (simp add: preprocess_image_shape_not_L rgb_image_def default_target_size_def)

text \<open>
  Claim C3. On a run that reaches the result block with probability \<open>p\<close>, the confidence
  shown is \<open>abs(p - 0.5) * 2\<close> under the format \<open>.2%\<close>. At 0.5 that is 0.00%, at 0.0
  and at 1.0 it is 100.00%, at 0.75 it is 50.00%.
\<close>

theorem confidence_displayed:
  assumes "load_try (new_Interpreter env) = Inr interp"
    and "uploaded_file env = Some up"
    and "size_upload up \<le> 10485760"
    and "Image_open up = Inr im"
    and "check_button env"
    and "predict_try interp (preprocess_image (pillow env) im default_target_size) = Inr (r, p)"
  shows "last (main env) = Result_card (if 0.5 < p then ''green'' else ''red'') r
                             (format_percent2 (\<bar>p - 0.5\<bar> * 2)) \<and>
         format_percent2 (\<bar>0.5 - 0.5\<bar> * 2) = ''0.00%'' \<and>
         format_percent2 (\<bar>0.0 - 0.5\<bar> * 2) = ''100.00%'' \<and>
         format_percent2 (\<bar>1.0 - 0.5\<bar> * 2) = ''100.00%'' \<and>
         format_percent2 (\<bar>0.75 - 0.5\<bar> * 2) = ''50.00%''"
proof -
  have r: "r = (if 0.5 < p then ''PCOS Negative'' else ''PCOS Positive'')"
    using assms(6) by (rule predict_try_label)
  have t: "main_try interp (pillow env) up (check_button env) =
           ([Called ''Image.open'', St_static ''columns'',
             St_static ''markdown image-container'', St_image im, St_static ''markdown /div'',
             St_spinner ''Analyzing image...'', Called ''preprocess_image'',
             Called ''predict_pcos_tflite'', St_static ''columns'',
             Result_card (if 0.5 < p then ''green'' else ''red'')
               (if 0.5 < p then ''PCOS Negative'' else ''PCOS Positive'')
               (format_percent2 (\<bar>p - 0.5\<bar> * 2))], None)"
    using main_try_success [OF assms(4) assms(6)] assms(5) by simp
  have m: "last (main env) = Result_card (if 0.5 < p then ''green'' else ''red'') r
               (format_percent2 (\<bar>p - 0.5\<bar> * 2))"
    using main_accepted [OF assms(1) assms(2) assms(3)] t r by simp
  have f: "format_percent2 (\<bar>0.5 - 0.5\<bar> * 2) = ''0.00%'' \<and>
         format_percent2 (\<bar>0.0 - 0.5\<bar> * 2) = ''100.00%'' \<and>
         format_percent2 (\<bar>1.0 - 0.5\<bar> * 2) = ''100.00%'' \<and>
         format_percent2 (\<bar>0.75 - 0.5\<bar> * 2) = ''50.00%''"
    by (simp add: format_percent2_def round_half_even_def digit_char_def Let_def)
  from m f show ?thesis by simp
qed

theorem confidence_displayed_witness:
  "last (main (sample_session rgb_image 1000 0.75)) =
     Result_card ''green'' ''PCOS Negative'' ''50.00%''"
proof -
  let ?env = "sample_session rgb_image 1000 0.75"
  let ?up = "\<lparr>size_upload = 1000, Image_open = Inr rgb_image\<rparr>"
  have h1: "load_try (new_Interpreter ?env) = Inr (stub_interpreter [[0.75]])"
    by (rule sample_load)
  have h2: "uploaded_file ?env = Some ?up" by (simp add: sample_session_def)
  have h3: "size_upload ?up \<le> 10485760" by simp
  have h4: "Image_open ?up = Inr rgb_image" by simp
  have h5: "check_button ?env" by (simp add: sample_session_def)
  have sh: "shape (preprocess_image (pillow ?env) rgb_image default_target_size)
            = [1, 224, 224, 3]"
    by (rule rgb_image_shape)
  have h6: "predict_try (stub_interpreter [[0.75]])
              (preprocess_image (pillow ?env) rgb_image default_target_size)
            = Inr (''PCOS Negative'', 0.75)"
    using sample_predict_try [OF sh, of "0.75"] by simp
  from confidence_displayed [OF h1 h2 h3 h4 h5 h6] show ?thesis by simp
qed







text \<open>The runtime whose forward pass raises: it loads, and the \<open>try\<close> block of the predictor raises.\<close>

lemma broken_load: "load_try (new_Interpreter broken_session) = Inr broken_interpreter"
  by (simp add: load_try_def broken_session_def and_then_def broken_interpreter_def
      stub_interpreter_def)

lemma broken_predict_try:
  assumes "shape a = [1, 224, 224, 3]"
  shows "predict_try broken_interpreter a = Inl (Exception ''Node failed to invoke'')"
  using assms
  by (simp add: predict_try_def and_then_def getitem_def broken_interpreter_def
      stub_interpreter_def astype_def)

text \<open>
  Claim C6. When loading the model raises, \<open>load_tflite_model\<close> returns \<open>None\<close> with an
  error message, and the run of \<open>main\<close> stops after a second error message, whatever was
  uploaded and whether or not the button was pressed: neither \<open>preprocess_image\<close> nor
  \<open>predict_pcos_tflite\<close> is entered.
\<close>

theorem load_failure_short_circuits:
  assumes "load_try (new_Interpreter env) = Inl e"
  shows "load_tflite_model (new_Interpreter env) =
           (None, [St_error (''Error loading TFLite model: '' @ str e)]) \<and>
         main env = static_ui @
           [Called ''load_tflite_model'',
            St_error (''Error loading TFLite model: '' @ str e),
            St_error ''Failed to load TFLite model. Please check if the model file exists.''] \<and>
         Called ''preprocess_image'' \<notin> set (main env) \<and>
         Called ''predict_pcos_tflite'' \<notin> set (main env)"
proof -
  have l: "load_tflite_model (new_Interpreter env) =
           (None, [St_error (''Error loading TFLite model: '' @ str e)])"
    using assms by (rule load_tflite_model_fails)
  have m: "main env = static_ui @
           [Called ''load_tflite_model'',
            St_error (''Error loading TFLite model: '' @ str e),
            St_error ''Failed to load TFLite model. Please check if the model file exists.'']"
    using assms by (rule main_no_model)
  from l m show ?thesis by (simp add: static_ui_def)
qed

theorem load_failure_short_circuits_witness:
  "load_tflite_model (new_Interpreter no_model_session) =
     (None, [St_error ''Error loading TFLite model: Could not open the model file'']) \<and>
   main no_model_session = static_ui @
     [Called ''load_tflite_model'',
      St_error ''Error loading TFLite model: Could not open the model file'',
      St_error ''Failed to load TFLite model. Please check if the model file exists.'']"
proof -
  have h: "load_try (new_Interpreter no_model_session)
           = Inl (Exception ''Could not open the model file'')"
    by (simp add: no_model_session_def load_try_def and_then_def)
  from load_failure_short_circuits [OF h] show ?thesis by simp
qed

text \<open>
  Claim C8. When a call inside the \<open>try\<close> block of \<open>predict_pcos_tflite\<close> raises, the
  function returns \<open>(None, None)\<close> with a failure message; the run of \<open>main\<close> ends with that
  message, shows no result block, and the handler of \<open>main\<close> is not reached.
\<close>

theorem prediction_failure_is_caught:
  assumes "load_try (new_Interpreter env) = Inr interp"
    and "uploaded_file env = Some up"
    and "size_upload up \<le> 10485760"
    and "Image_open up = Inr im"
    and "check_button env"
    and "predict_try interp (preprocess_image (pillow env) im default_target_size) = Inl e"
  shows "predict_pcos_tflite interp (preprocess_image (pillow env) im default_target_size) =
           ((None, None), [St_error (''Error during prediction: '' @ str e)]) \<and>
         main env = static_ui @
           [Called ''load_tflite_model'', Called ''Image.open'', St_static ''columns'',
            St_static ''markdown image-container'', St_image im, St_static ''markdown /div'',
            St_spinner ''Analyzing image...'', Called ''preprocess_image'',
            Called ''predict_pcos_tflite'',
            St_error (''Error during prediction: '' @ str e)] \<and>
         (\<forall>c r t. Result_card c r t \<notin> set (main env))"
proof -
  have p: "predict_pcos_tflite interp (preprocess_image (pillow env) im default_target_size) =
           ((None, None), [St_error (''Error during prediction: '' @ str e)])"
    using assms(6) by (simp add: predict_pcos_tflite_def)
  have t: "main_try interp (pillow env) up (check_button env) =
           ([Called ''Image.open'', St_static ''columns'',
             St_static ''markdown image-container'', St_image im, St_static ''markdown /div'',
             St_spinner ''Analyzing image...'', Called ''preprocess_image'',
             Called ''predict_pcos_tflite'',
             St_error (''Error during prediction: '' @ str e)], None)"
    using main_try_predict_fails [OF assms(4) assms(6)] assms(5) by simp
  have m: "main env = static_ui @
           [Called ''load_tflite_model'', Called ''Image.open'', St_static ''columns'',
            St_static ''markdown image-container'', St_image im, St_static ''markdown /div'',
            St_spinner ''Analyzing image...'', Called ''preprocess_image'',
            Called ''predict_pcos_tflite'',
            St_error (''Error during prediction: '' @ str e)]"
    using main_accepted [OF assms(1) assms(2) assms(3)] t by simp
  have n: "\<forall>c r t. Result_card c r t \<notin> set (main env)"
    by (simp add: m static_ui_def)
  from p m n show ?thesis by blast
qed

theorem prediction_failure_is_caught_witness:
  "main broken_session = static_ui @
     [Called ''load_tflite_model'', Called ''Image.open'', St_static ''columns'',
      St_static ''markdown image-container'', St_image rgb_image, St_static ''markdown /div'',
      St_spinner ''Analyzing image...'', Called ''preprocess_image'',
      Called ''predict_pcos_tflite'',
      St_error ''Error during prediction: Node failed to invoke'']"
proof -
  let ?up = "\<lparr>size_upload = 1000, Image_open = Inr rgb_image\<rparr>"
  have h2: "uploaded_file broken_session = Some ?up"
    by (simp add: broken_session_def sample_session_def)
  have h3: "size_upload ?up \<le> 10485760" by simp
  have h4: "Image_open ?up = Inr rgb_image" by simp
  have h5: "check_button broken_session" by (simp add: broken_session_def sample_session_def)
  have sh: "shape (preprocess_image (pillow broken_session) rgb_image default_target_size)
            = [1, 224, 224, 3]"
    by (rule rgb_image_shape)
  have h6: "predict_try broken_interpreter
              (preprocess_image (pillow broken_session) rgb_image default_target_size)
            = Inl (Exception ''Node failed to invoke'')"
    using sh by (rule broken_predict_try)
  from prediction_failure_is_caught [OF broken_load h2 h3 h4 h5 h6] show ?thesis by simp
qed

text \<open>
  Claim C9. A 300 x 300 RGB upload for which the model returns probability 0.2 is shown as
  \<open>PCOS Positive\<close> with confidence \<open>60.00%\<close>.
\<close>

theorem scenario_positive_60:
  assumes "load_try (new_Interpreter env) = Inr interp"
    and "uploaded_file env = Some up"
    and "size_upload up \<le> 10485760"
    and "Image_open up = Inr im"
    and "mode im = ''RGB''"
    and "size_image im = (300, 300)"
    and "check_button env"
    and "predict_try interp (preprocess_image (pillow env) im default_target_size) = Inr (r, 0.2)"
  shows "main env = static_ui @
           [Called ''load_tflite_model'', Called ''Image.open'', St_static ''columns'',
            St_static ''markdown image-container'', St_image im, St_static ''markdown /div'',
            St_spinner ''Analyzing image...'', Called ''preprocess_image'',
            Called ''predict_pcos_tflite'', St_static ''columns'',
            Result_card ''red'' ''PCOS Positive'' ''60.00%'']"
proof -
  have f: "format_percent2 (\<bar>0.2 - 0.5\<bar> * 2) = ''60.00%''"
    by (simp add: format_percent2_def round_half_even_def digit_char_def Let_def)
  have t: "main_try interp (pillow env) up (check_button env) =
           ([Called ''Image.open'', St_static ''columns'',
             St_static ''markdown image-container'', St_image im, St_static ''markdown /div'',
             St_spinner ''Analyzing image...'', Called ''preprocess_image'',
             Called ''predict_pcos_tflite'', St_static ''columns'',
             Result_card ''red'' ''PCOS Positive'' ''60.00%''], None)"
    using main_try_success [OF assms(4) assms(8)] assms(7) f by simp
  show ?thesis
    using main_accepted [OF assms(1) assms(2) assms(3)] t by simp
qed

theorem scenario_positive_60_witness:
  "main (sample_session rgb_image 1000 0.2) = static_ui @
           [Called ''load_tflite_model'', Called ''Image.open'', St_static ''columns'',
            St_static ''markdown image-container'', St_image rgb_image,
            St_static ''markdown /div'',
            St_spinner ''Analyzing image...'', Called ''preprocess_image'',
            Called ''predict_pcos_tflite'', St_static ''columns'',
            Result_card ''red'' ''PCOS Positive'' ''60.00%'']"
proof -
  let ?env = "sample_session rgb_image 1000 0.2"
  let ?up = "\<lparr>size_upload = 1000, Image_open = Inr rgb_image\<rparr>"
  have h1: "load_try (new_Interpreter ?env) = Inr (stub_interpreter [[0.2]])"
    by (rule sample_load)
  have h2: "uploaded_file ?env = Some ?up" by (simp add: sample_session_def)
  have h3: "size_upload ?up \<le> 10485760" by simp
  have h4: "Image_open ?up = Inr rgb_image" by simp
  have h5: "mode rgb_image = ''RGB''" by (simp add: rgb_image_def)
  have h6: "size_image rgb_image = (300, 300)" by (simp add: rgb_image_def)
  have h7: "check_button ?env" by (simp add: sample_session_def)
  have sh: "shape (preprocess_image (pillow ?env) rgb_image default_target_size)
            = [1, 224, 224, 3]"
    by (rule rgb_image_shape)
  have h8: "predict_try (stub_interpreter [[0.2]])
              (preprocess_image (pillow ?env) rgb_image default_target_size)
            = Inr (''PCOS Positive'', 0.2)"
    using sample_predict_try [OF sh, of "0.2"] by simp
  from scenario_positive_60 [OF h1 h2 h3 h4 h5 h6 h7 h8] show ?thesis .
qed

end
